theory Spec2Isabelle
  imports Main "HOL-Library.Sublist"
begin

section \<open>Pymoe.Mal: the MyAnimeList client\<close>

text \<open>
  A shallow embedding of \<^verbatim>\<open>src/Pymoe/Mal/__init__.py\<close> (class \<^verbatim>\<open>MAL\<close>).
  Every method takes the world (the client object and the network) and returns its result,
  or the exception it raises, together with the world it leaves behind.
\<close>

subsection \<open>Exceptions\<close>

text \<open>
  The exceptions the module raises itself carry their message. \<^verbatim>\<open>TypeError\<close>,
  \<^verbatim>\<open>AttributeError\<close> and \<^verbatim>\<open>ParseError\<close> are raised by the interpreter and the
  standard library, \<^verbatim>\<open>RequestException\<close> by the HTTP library when no response arrives.
\<close>

datatype py_error =
    UserLoginFailed string
  | ServerError string
  | SyntaxError string
  | TypeError
  | AttributeError
  | ParseError
  | RequestException

definition ebind :: "py_error + 'a \<Rightarrow> ('a \<Rightarrow> py_error + 'b) \<Rightarrow> py_error + 'b" where
  "ebind m f = (case m of Inl e \<Rightarrow> Inl e | Inr x \<Rightarrow> f x)"

subsection \<open>Strings and lists of Python\<close>

text \<open>\<^verbatim>\<open>s.split(sep)\<close> for a separator of one character, as in \<^verbatim>\<open>split(';')\<close>.\<close>

fun str_split :: "char \<Rightarrow> string \<Rightarrow> string list" where
  "str_split sep [] = [[]]"
| "str_split sep (c # cs) =
     (if c = sep then [] # str_split sep cs
      else (case str_split sep cs of [] \<Rightarrow> [[c]] | p # ps \<Rightarrow> (c # p) # ps))"

text \<open>
  \<^verbatim>\<open>s.replace(old, new)\<close>: the occurrences of \<open>old\<close> are replaced from the left, without
  overlap; an empty \<open>old\<close> matches before every character and at the end.
\<close>

function replace_from :: "string \<Rightarrow> string \<Rightarrow> string \<Rightarrow> string" where
  "replace_from old new [] = []"
| "replace_from old new (c # cs) =
     (if old \<noteq> [] \<and> prefix old (c # cs)
      then new @ replace_from old new (drop (length old) (c # cs))
      else c # replace_from old new cs)"
  by pat_completeness auto
termination
  by (relation "measure (\<lambda>(old, new, s). length s)") auto

definition str_replace :: "string \<Rightarrow> string \<Rightarrow> string \<Rightarrow> string" where
  "str_replace s old new =
     (if old = [] then new @ concat (map (\<lambda>c. c # new) s) else replace_from old new s)"

text \<open>\<^verbatim>\<open>str(x)\<close> as \<^verbatim>\<open>'{}'.format(x)\<close> prints it, for a string or \<^verbatim>\<open>None\<close>.\<close>

definition py_str :: "string option \<Rightarrow> string" where
  "py_str x = (case x of None \<Rightarrow> ''None'' | Some s \<Rightarrow> s)"

text \<open>\<^verbatim>\<open>xs or ys\<close> on lists: the empty list is the only falsy one.\<close>

definition py_or :: "'a list \<Rightarrow> 'a list \<Rightarrow> 'a list" where
  "py_or xs ys = (if xs = [] then ys else xs)"

text \<open>
  \<^verbatim>\<open>xs.append(x)\<close> changes the list in place and returns \<^verbatim>\<open>None\<close>: the pair is the
  list afterwards and the value of the call.
\<close>

definition list_append :: "'a list \<Rightarrow> 'a \<Rightarrow> 'a list \<times> 'b option" where
  "list_append xs x = (xs @ [x], None)"

text \<open>A method call on a value that may be \<^verbatim>\<open>None\<close>, which has no such method.\<close>

definition on_str :: "string option \<Rightarrow> (string \<Rightarrow> 'a) \<Rightarrow> py_error + 'a" where
  "on_str x f = (case x of None \<Rightarrow> Inl AttributeError | Some s \<Rightarrow> Inr (f s))"

subsection \<open>xml.etree.ElementTree\<close>

text \<open>
  An \<^verbatim>\<open>Element\<close> has a tag, a text (\<^verbatim>\<open>None\<close> when the element has none) and children.
  \<^verbatim>\<open>ET.fromstring\<close> returns the root \<^verbatim>\<open>Element\<close>; \<^verbatim>\<open>ET.parse\<close> returns an
  \<^verbatim>\<open>ElementTree\<close>, the only one of the two that has \<^verbatim>\<open>getroot()\<close>.
\<close>

datatype element = Element (tag: string) (etext: "string option") (children: "element list")

datatype etobj = ElementObj element | ElementTreeObj element

definition getroot :: "etobj \<Rightarrow> py_error + element" where
  "getroot x = (case x of ElementObj e \<Rightarrow> Inl AttributeError | ElementTreeObj e \<Rightarrow> Inr e)"

definition find_el :: "element \<Rightarrow> string \<Rightarrow> element option" where
  "find_el e t = List.find (\<lambda>c. tag c = t) (children e)"

definition findall :: "element \<Rightarrow> string \<Rightarrow> element list" where
  "findall e t = filter (\<lambda>c. tag c = t) (children e)"

text \<open>\<^verbatim>\<open>x.find(t)\<close> and \<^verbatim>\<open>x.text\<close> where \<open>x\<close> is the result of a \<^verbatim>\<open>find\<close>.\<close>

definition obj_find :: "element option \<Rightarrow> string \<Rightarrow> py_error + element option" where
  "obj_find x t = (case x of None \<Rightarrow> Inl AttributeError | Some e \<Rightarrow> Inr (find_el e t))"

definition obj_text :: "element option \<Rightarrow> py_error + string option" where
  "obj_text x = (case x of None \<Rightarrow> Inl AttributeError | Some e \<Rightarrow> Inr (etext e))"

subsection \<open>The records of Pymoe.Mal.Objects\<close>

text \<open>
  Modelled from the spec: the classes \<^verbatim>\<open>Anime\<close>, \<^verbatim>\<open>Manga\<close> and \<^verbatim>\<open>User\<close> of
  \<^verbatim>\<open>Pymoe/Mal/Objects.py\<close> are not among the sources. They are value records that hold
  the arguments of their constructor; the fields are named as the constructor calls of this
  module name them. A field read from XML is a string or \<^verbatim>\<open>None\<close>.
\<close>

record anime =
  aid :: "string option"
  title :: "string option"
  synonyms :: "string option list option"
  episodes :: "string option"
  average :: "string option"
  anime_start :: "string option"
  anime_end :: "string option"
  synopsis :: string
  image :: "string option"
  status_anime :: "string option"
  atype :: "string option"

record manga =
  mid :: "string option"
  mtitle :: "string option"
  msynonyms :: "string option list option"
  chapters :: "string option"
  volumes :: "string option"
  maverage :: "string option"
  manga_start :: "string option"
  manga_end :: "string option"
  msynopsis :: string
  mimage :: "string option"
  status_manga :: "string option"
  mtype :: "string option"

record user =
  uid :: "string option"
  name :: "string option"
  anime_list :: "anime list"
  anime_complete :: "string option"
  anime_onhold :: "string option"
  anime_dropped :: "string option"
  anime_planned :: "string option"
  anime_watching :: "string option"
  anime_days :: "string option"
  manga_list :: "manga list"
  manga_completed :: "string option"
  manga_onhold :: "string option"
  manga_dropped :: "string option"
  manga_planned :: "string option"
  manga_watching :: "string option"
  manga_days :: "string option"

text \<open>
  A value handed to a method: an \<^verbatim>\<open>Anime\<close>, a \<^verbatim>\<open>Manga\<close>, or anything else, of which
  only the printed type matters.
\<close>

datatype pyobj = is_Anime: AnimeObj anime | is_Manga: MangaObj manga | OtherObj string

definition type_repr :: "pyobj \<Rightarrow> string" where
  "type_repr x = (case x of
      AnimeObj a \<Rightarrow> ''<class 'Pymoe.Mal.Objects.Anime'>''
    | MangaObj m \<Rightarrow> ''<class 'Pymoe.Mal.Objects.Manga'>''
    | OtherObj t \<Rightarrow> t)"

text \<open>
  What the module takes from outside its own text: the XML parser behind
  \<^verbatim>\<open>ET.fromstring\<close> (it raises \<^verbatim>\<open>ParseError\<close> on ill-formed text), \<^verbatim>\<open>html.unescape\<close>,
  and the \<^verbatim>\<open>to_xml\<close> methods of the two record classes.
\<close>

record lib =
  parse_xml :: "string \<Rightarrow> py_error + element"
  unescape :: "string \<Rightarrow> string"
  anime_to_xml :: "anime \<Rightarrow> py_error + string"
  manga_to_xml :: "manga \<Rightarrow> py_error + string"

definition fromstring :: "lib \<Rightarrow> string \<Rightarrow> py_error + etobj" where
  "fromstring L s = ebind (parse_xml L s) (\<lambda>e. Inr (ElementObj e))"

subsection \<open>requests\<close>

text \<open>
  The network answers a request with a response or not at all; its answer may depend on
  the requests it has seen. \<open>sent\<close> is the log of the requests that left the client.
\<close>

datatype http_method = GET | POST

record request =
  meth :: http_method
  url :: string
  params :: "(string \<times> string) list"
  auth :: "(string \<times> string) option"
  headers :: "(string \<times> string) list"

record response =
  status_code :: int
  rtext :: string

record network =
  server :: "request list \<Rightarrow> request \<Rightarrow> py_error + response"
  sent :: "request list"

text \<open>A keyword argument of a call: a dictionary of strings or an \<^verbatim>\<open>HTTPBasicAuth\<close>.\<close>

datatype kwval = KDict "(string \<times> string) list" | HTTPBasicAuth string string

text \<open>
  \<^verbatim>\<open>requests.get\<close> and \<^verbatim>\<open>requests.post\<close> pass their keyword arguments on to
  \<^verbatim>\<open>Session.request\<close>, which takes the keywords below and no others: a call with any other
  keyword raises \<^verbatim>\<open>TypeError\<close> before anything is sent.
\<close>

definition session_request_keywords :: "string list" where
  "session_request_keywords =
     [''params'', ''data'', ''headers'', ''cookies'', ''files'', ''auth'', ''timeout'',
      ''allow_redirects'', ''proxies'', ''hooks'', ''stream'', ''verify'', ''cert'', ''json'']"

definition kw_dict :: "(string \<times> kwval) list \<Rightarrow> string \<Rightarrow> (string \<times> string) list" where
  "kw_dict kwargs k = (case map_of kwargs k of Some (KDict d) \<Rightarrow> d | _ \<Rightarrow> [])"

definition kw_auth :: "(string \<times> kwval) list \<Rightarrow> (string \<times> string) option" where
  "kw_auth kwargs =
     (case map_of kwargs ''auth'' of Some (HTTPBasicAuth u p) \<Rightarrow> Some (u, p) | _ \<Rightarrow> None)"

definition requests_request ::
  "http_method \<Rightarrow> string \<Rightarrow> (string \<times> kwval) list \<Rightarrow> network
     \<Rightarrow> (py_error + response) \<times> network" where
  "requests_request m u kwargs n =
     (if list_all (\<lambda>k. k \<in> set session_request_keywords) (map fst kwargs)
      then (let rq = \<lparr>meth = m, url = u, params = kw_dict kwargs ''params'',
                       auth = kw_auth kwargs, headers = kw_dict kwargs ''headers''\<rparr>
            in (server n (sent n) rq, n\<lparr>sent := sent n @ [rq]\<rparr>))
      else (Inl TypeError, n))"

definition requests_get ::
  "string \<Rightarrow> (string \<times> kwval) list \<Rightarrow> network \<Rightarrow> (py_error + response) \<times> network" where
  "requests_get u kwargs n = requests_request GET u kwargs n"

definition requests_post ::
  "string \<Rightarrow> (string \<times> kwval) list \<Rightarrow> network \<Rightarrow> (py_error + response) \<times> network" where
  "requests_post u kwargs n = requests_request POST u kwargs n"

subsection \<open>The client\<close>

text \<open>
  The attributes \<^verbatim>\<open>__init__\<close> sets. (\<^verbatim>\<open>self.anime\<close> and \<^verbatim>\<open>self.manga\<close> hold references to
  the methods below and nothing else.)
\<close>

record mal =
  apiurl :: string
  apiusers :: string
  header :: "(string \<times> string) list"
  username :: string
  password :: string

record world =
  client :: mal
  net :: network

definition verify_credentials :: "world \<Rightarrow> (py_error + unit) \<times> world" where
  "verify_credentials w =
     (let self = client w;
          (r, n) = requests_get (apiurl self @ ''account/verify_credentials.xml'')
                     [(''auth'', HTTPBasicAuth (username self) (password self)),
                      (''headers'', KDict (header self))] (net w)
      in (case r of
            Inl e \<Rightarrow> (Inl e, w\<lparr>net := n\<rparr>)
          | Inr resp \<Rightarrow>
              (if status_code resp \<noteq> 200
               then Inl (UserLoginFailed ''Username or Password incorrect.'')
               else Inr (), w\<lparr>net := n\<rparr>)))"

text \<open>\<^verbatim>\<open>MAL(username, password)\<close>: the new client, unless the verification raises.\<close>

definition mal_init :: "string \<Rightarrow> string \<Rightarrow> network \<Rightarrow> (py_error + mal) \<times> network" where
  "mal_init uname pw n =
     (let self = \<lparr>apiurl = ''https://myanimelist.net/api/'',
                   apiusers = ''https://myanimelist.net/malappinfo.php'',
                   header = [(''User-Agent'', ''Pymoe (git.vertinext.com/ccubed/Pymoe)'')],
                   username = uname, password = pw\<rparr>;
          (r, w) = verify_credentials \<lparr>client = self, net = n\<rparr>
      in (case r of Inl e \<Rightarrow> (Inl e, net w) | Inr u \<Rightarrow> (Inr (client w), net w)))"

subsection \<open>Parsing an entry\<close>

text \<open>
  The body of the loops of \<^verbatim>\<open>_search\<close> and \<^verbatim>\<open>parse_anime_data\<close> (the same text in both):
  the record built from one element. The arguments are evaluated in the order written.
\<close>

definition anime_of_item :: "lib \<Rightarrow> element \<Rightarrow> py_error + anime" where
  "anime_of_item L item =
     ebind (obj_text (find_el item ''synonyms'')) (\<lambda>st.
     ebind (on_str st (str_split CHR '';'')) (\<lambda>parts.
     let syn = py_or (map Some parts) [] in
     ebind (obj_text (find_el item ''id'')) (\<lambda>v_id.
     ebind (obj_text (find_el item ''title'')) (\<lambda>v_title.
     ebind (obj_text (find_el item ''english'')) (\<lambda>v_english.
     let (syn', v_synonyms) = list_append syn v_english in
     ebind (obj_text (find_el item ''episodes'')) (\<lambda>v_episodes.
     ebind (obj_text (find_el item ''score'')) (\<lambda>v_score.
     ebind (obj_text (find_el item ''start_date'')) (\<lambda>v_start.
     ebind (obj_text (find_el item ''end_date'')) (\<lambda>v_end.
     ebind (obj_text (find_el item ''synopsis'')) (\<lambda>syt.
     ebind (on_str syt (\<lambda>s. str_replace s ''<br />'' '''')) (\<lambda>stripped.
     let v_synopsis = unescape L stripped in
     ebind (obj_text (find_el item ''image'')) (\<lambda>v_image.
     ebind (obj_text (find_el item ''status'')) (\<lambda>v_status.
     ebind (obj_text (find_el item ''type'')) (\<lambda>v_type.
     Inr \<lparr>aid = v_id, title = v_title, synonyms = v_synonyms, episodes = v_episodes,
          average = v_score, anime_start = v_start, anime_end = v_end,
          synopsis = v_synopsis, image = v_image, status_anime = v_status,
          atype = v_type\<rparr>))))))))))))))"

text \<open>The body of the loops of \<^verbatim>\<open>_search\<close> and \<^verbatim>\<open>parse_manga_data\<close>.\<close>

definition manga_of_item :: "lib \<Rightarrow> element \<Rightarrow> py_error + manga" where
  "manga_of_item L item =
     ebind (obj_text (find_el item ''synonyms'')) (\<lambda>st.
     ebind (on_str st (str_split CHR '';'')) (\<lambda>parts.
     let syn = py_or (map Some parts) [] in
     ebind (obj_text (find_el item ''id'')) (\<lambda>v_id.
     ebind (obj_text (find_el item ''title'')) (\<lambda>v_title.
     ebind (obj_text (find_el item ''english'')) (\<lambda>v_english.
     let (syn', v_synonyms) = list_append syn v_english in
     ebind (obj_text (find_el item ''chapters'')) (\<lambda>v_chapters.
     ebind (obj_text (find_el item ''volumes'')) (\<lambda>v_volumes.
     ebind (obj_text (find_el item ''score'')) (\<lambda>v_score.
     ebind (obj_text (find_el item ''start_date'')) (\<lambda>v_start.
     ebind (obj_text (find_el item ''end_date'')) (\<lambda>v_end.
     ebind (obj_text (find_el item ''synopsis'')) (\<lambda>syt.
     ebind (on_str syt (\<lambda>s. str_replace s ''<br />'' '''')) (\<lambda>stripped.
     let v_synopsis = unescape L stripped in
     ebind (obj_text (find_el item ''image'')) (\<lambda>v_image.
     ebind (obj_text (find_el item ''status'')) (\<lambda>v_status.
     ebind (obj_text (find_el item ''type'')) (\<lambda>v_type.
     Inr \<lparr>mid = v_id, mtitle = v_title, msynonyms = v_synonyms, chapters = v_chapters,
          volumes = v_volumes, maverage = v_score, manga_start = v_start,
          manga_end = v_end, msynopsis = v_synopsis, mimage = v_image,
          status_manga = v_status, mtype = v_type\<rparr>)))))))))))))))"

text \<open>
  \<^verbatim>\<open>for item in items: out.append(f(item))\<close>: the first exception ends the loop.
\<close>

fun for_append :: "('a \<Rightarrow> py_error + 'b) \<Rightarrow> 'a list \<Rightarrow> 'b list \<Rightarrow> py_error + 'b list" where
  "for_append f [] out = Inr out"
| "for_append f (item # items) out =
     (case f item of Inl e \<Rightarrow> Inl e | Inr x \<Rightarrow> for_append f items (out @ [x]))"

subsection \<open>Searching\<close>

definition search :: "lib \<Rightarrow> int \<Rightarrow> string \<Rightarrow> world \<Rightarrow> (py_error + pyobj list) \<times> world" where
  "search L which q w =
     (let self = client w;
          u = apiurl self @ (if which = 1 then ''anime'' else ''manga'') @ ''/search.xml'';
          (r, n) = requests_get u
                     [(''params'', KDict [(''q'', q)]),
                      (''auth'', HTTPBasicAuth (username self) (password self)),
                      (''headers'', KDict (header self))] (net w)
      in (case r of
            Inl e \<Rightarrow> (Inl e, w\<lparr>net := n\<rparr>)
          | Inr resp \<Rightarrow>
              (if status_code resp \<noteq> 200 then (Inr [], w\<lparr>net := n\<rparr>)
               else (ebind (fromstring L (rtext resp)) (\<lambda>data.
                       if which = 1
                       then ebind (getroot data) (\<lambda>root.
                            ebind (for_append (anime_of_item L) (findall root ''entry'') [])
                              (\<lambda>final_list. Inr (map AnimeObj final_list)))
                       else ebind (getroot data) (\<lambda>root.
                            ebind (for_append (manga_of_item L) (findall root ''entry'') [])
                              (\<lambda>final_list. Inr (map MangaObj final_list)))),
                     w\<lparr>net := n\<rparr>))))"

definition search_anime :: "lib \<Rightarrow> string \<Rightarrow> world \<Rightarrow> (py_error + pyobj list) \<times> world" where
  "search_anime L q w = search L 1 q w"

definition search_manga :: "lib \<Rightarrow> string \<Rightarrow> world \<Rightarrow> (py_error + pyobj list) \<times> world" where
  "search_manga L q w = search L 2 q w"

subsection \<open>Adding, updating, deleting\<close>

definition anime_add :: "lib \<Rightarrow> pyobj \<Rightarrow> world \<Rightarrow> (py_error + bool) \<times> world" where
  "anime_add L data w =
     (case data of
        AnimeObj a \<Rightarrow>
          (case anime_to_xml L a of
             Inl e \<Rightarrow> (Inl e, w)
           | Inr xmlstr \<Rightarrow>
               (let self = client w;
                    (r, n) = requests_post (apiurl self @ ''animelist/add/'' @ py_str (aid a) @ ''.xml'')
                               [(''params'', KDict [(''data'', xmlstr)]),
                                (''auth'', HTTPBasicAuth (username self) (password self)),
                                (''headers'', KDict (header self))] (net w)
                in (case r of
                      Inl e \<Rightarrow> (Inl e, w\<lparr>net := n\<rparr>)
                    | Inr resp \<Rightarrow>
                        (if status_code resp \<noteq> 201 then Inl (ServerError (rtext resp))
                         else Inr True, w\<lparr>net := n\<rparr>))))
      | _ \<Rightarrow>
          (Inl (SyntaxError (''Invalid type: data should be a Pymoe.Mal.Objects.Anime object. Got a ''
                              @ type_repr data)), w))"

definition manga_add :: "lib \<Rightarrow> pyobj \<Rightarrow> world \<Rightarrow> (py_error + bool) \<times> world" where
  "manga_add L data w =
     (case data of
        MangaObj m \<Rightarrow>
          (case manga_to_xml L m of
             Inl e \<Rightarrow> (Inl e, w)
           | Inr xmlstr \<Rightarrow>
               (let self = client w;
                    (r, n) = requests_post (apiurl self @ ''mangalist/add/'' @ py_str (mid m) @ ''.xml'')
                               [(''params'', KDict [(''data'', xmlstr)]),
                                (''auth'', HTTPBasicAuth (username self) (password self)),
                                (''headers'', KDict (header self))] (net w)
                in (case r of
                      Inl e \<Rightarrow> (Inl e, w\<lparr>net := n\<rparr>)
                    | Inr resp \<Rightarrow>
                        (if status_code resp \<noteq> 201 then Inl (ServerError (rtext resp))
                         else Inr True, w\<lparr>net := n\<rparr>))))
      | _ \<Rightarrow>
          (Inl (SyntaxError (''Invalid type: data should be a Pymoe.Mal.Objects.Manga object. Got a ''
                              @ type_repr data)), w))"

definition anime_update :: "lib \<Rightarrow> pyobj \<Rightarrow> world \<Rightarrow> (py_error + bool) \<times> world" where
  "anime_update L data w =
     (case data of
        AnimeObj a \<Rightarrow>
          (case anime_to_xml L a of
             Inl e \<Rightarrow> (Inl e, w)
           | Inr xmlstr \<Rightarrow>
               (let self = client w;
                    (r, n) = requests_post (apiurl self @ ''animelist/update/'' @ py_str (aid a) @ ''.xml'')
                               [(''params'', KDict [(''data'', xmlstr)]),
                                (''auth'', HTTPBasicAuth (username self) (password self)),
                                (''Headers'', KDict (header self))] (net w)
                in (case r of
                      Inl e \<Rightarrow> (Inl e, w\<lparr>net := n\<rparr>)
                    | Inr resp \<Rightarrow>
                        (if status_code resp \<noteq> 200 then Inl (ServerError (rtext resp))
                         else Inr True, w\<lparr>net := n\<rparr>))))
      | _ \<Rightarrow>
          (Inl (SyntaxError (''Invalid type: data should be a Pymoe.Mal.Objects.Anime object. Got a ''
                              @ type_repr data)), w))"

definition manga_update :: "lib \<Rightarrow> pyobj \<Rightarrow> world \<Rightarrow> (py_error + bool) \<times> world" where
  "manga_update L data w =
     (case data of
        MangaObj m \<Rightarrow>
          (case manga_to_xml L m of
             Inl e \<Rightarrow> (Inl e, w)
           | Inr xmlstr \<Rightarrow>
               (let self = client w;
                    (r, n) = requests_post (apiurl self @ ''mangalist/update/'' @ py_str (mid m) @ ''.xml'')
                               [(''params'', KDict [(''data'', xmlstr)]),
                                (''auth'', HTTPBasicAuth (username self) (password self)),
                                (''Headers'', KDict (header self))] (net w)
                in (case r of
                      Inl e \<Rightarrow> (Inl e, w\<lparr>net := n\<rparr>)
                    | Inr resp \<Rightarrow>
                        (if status_code resp \<noteq> 200 then Inl (ServerError (rtext resp))
                         else Inr True, w\<lparr>net := n\<rparr>))))
      | _ \<Rightarrow>
          (Inl (SyntaxError (''Invalid type: data should be a Pymoe.Mal.Objects.Manga object. Got a ''
                              @ type_repr data)), w))"

definition anime_delete :: "pyobj \<Rightarrow> world \<Rightarrow> (py_error + bool) \<times> world" where
  "anime_delete data w =
     (case data of
        AnimeObj a \<Rightarrow>
          (let self = client w;
               (r, n) = requests_post (apiurl self @ ''animelist/delete/'' @ py_str (aid a) @ ''.xml'')
                          [(''auth'', HTTPBasicAuth (username self) (password self)),
                           (''Headers'', KDict (header self))] (net w)
           in (case r of
                 Inl e \<Rightarrow> (Inl e, w\<lparr>net := n\<rparr>)
               | Inr resp \<Rightarrow>
                   (if status_code resp \<noteq> 200 then Inl (ServerError (rtext resp))
                    else Inr True, w\<lparr>net := n\<rparr>)))
      | _ \<Rightarrow>
          (Inl (SyntaxError (''Invalid type: data should be a Pymoe.Mal.Objects.Anime object. Got a ''
                              @ type_repr data)), w))"

definition manga_delete :: "pyobj \<Rightarrow> world \<Rightarrow> (py_error + bool) \<times> world" where
  "manga_delete data w =
     (case data of
        MangaObj m \<Rightarrow>
          (let self = client w;
               (r, n) = requests_post (apiurl self @ ''mangalist/delete/'' @ py_str (mid m) @ ''.xml'')
                          [(''auth'', HTTPBasicAuth (username self) (password self)),
                           (''Headers'', KDict (header self))] (net w)
           in (case r of
                 Inl e \<Rightarrow> (Inl e, w\<lparr>net := n\<rparr>)
               | Inr resp \<Rightarrow>
                   (if status_code resp \<noteq> 200 then Inl (ServerError (rtext resp))
                    else Inr True, w\<lparr>net := n\<rparr>)))
      | _ \<Rightarrow>
          (Inl (SyntaxError (''Invalid type: data should be a Pymoe.Mal.Objects.Manga object. Got a ''
                              @ type_repr data)), w))"

subsection \<open>The user's lists\<close>

text \<open>The dictionary that \<^verbatim>\<open>parse_anime_data\<close> and \<^verbatim>\<open>parse_manga_data\<close> return, by key.\<close>

record 'a listing =
  data :: "'a list"
  completed :: "string option"
  onhold :: "string option"
  dropped :: "string option"
  planned :: "string option"
  watching :: "string option"
  days :: "string option"

text \<open>\<^verbatim>\<open>root.find('myinfo').find(k).text\<close>\<close>

definition myinfo :: "element \<Rightarrow> string \<Rightarrow> py_error + string option" where
  "myinfo root k = ebind (obj_find (find_el root ''myinfo'') k) obj_text"

definition parse_anime_data :: "lib \<Rightarrow> string \<Rightarrow> py_error + anime listing" where
  "parse_anime_data L xml =
     ebind (fromstring L xml) (\<lambda>doc.
     ebind (getroot doc) (\<lambda>root.
     ebind (for_append (anime_of_item L) (findall root ''anime'') []) (\<lambda>anime_list.
     ebind (myinfo root ''user_completed'') (\<lambda>v_completed.
     ebind (myinfo root ''user_onhold'') (\<lambda>v_onhold.
     ebind (myinfo root ''user_dropped'') (\<lambda>v_dropped.
     ebind (myinfo root ''user_plantowatch'') (\<lambda>v_planned.
     ebind (myinfo root ''user_watching'') (\<lambda>v_watching.
     ebind (myinfo root ''user_days_spent_watching'') (\<lambda>v_days.
     Inr \<lparr>data = anime_list, completed = v_completed, onhold = v_onhold,
          dropped = v_dropped, planned = v_planned, watching = v_watching,
          days = v_days\<rparr>)))))))))"

definition parse_manga_data :: "lib \<Rightarrow> string \<Rightarrow> py_error + manga listing" where
  "parse_manga_data L xml =
     ebind (fromstring L xml) (\<lambda>doc.
     ebind (getroot doc) (\<lambda>root.
     ebind (for_append (manga_of_item L) (findall root ''manga'') []) (\<lambda>manga_list.
     ebind (myinfo root ''user_completed'') (\<lambda>v_completed.
     ebind (myinfo root ''user_onhold'') (\<lambda>v_onhold.
     ebind (myinfo root ''user_dropped'') (\<lambda>v_dropped.
     ebind (myinfo root ''user_plantoread'') (\<lambda>v_planned.
     ebind (myinfo root ''user_reading'') (\<lambda>v_watching.
     ebind (myinfo root ''user_days_spent_watching'') (\<lambda>v_days.
     Inr \<lparr>data = manga_list, completed = v_completed, onhold = v_onhold,
          dropped = v_dropped, planned = v_planned, watching = v_watching,
          days = v_days\<rparr>)))))))))"

definition user :: "lib \<Rightarrow> string \<Rightarrow> world \<Rightarrow> (py_error + user) \<times> world" where
  "user L nm w =
     (let self = client w;
          (r1, n1) = requests_get (apiusers self)
                       [(''params'', KDict [(''u'', nm), (''status'', ''all''), (''type'', ''anime'')]),
                        (''headers'', KDict (header self))] (net w)
      in (case r1 of
            Inl e \<Rightarrow> (Inl e, w\<lparr>net := n1\<rparr>)
          | Inr anime_data \<Rightarrow>
              (let (r2, n2) = requests_get (apiusers self)
                       [(''params'', KDict [(''u'', nm), (''status'', ''all''), (''type'', ''manga'')]),
                        (''headers'', KDict (header self))] n1
               in (case r2 of
                     Inl e \<Rightarrow> (Inl e, w\<lparr>net := n2\<rparr>)
                   | Inr manga_data \<Rightarrow>
                       (ebind (fromstring L (rtext anime_data)) (\<lambda>root.
                        ebind (getroot root) (\<lambda>r.
                        ebind (myinfo r ''user_id'') (\<lambda>v_uid.
                        ebind (getroot root) (\<lambda>r'.
                        ebind (myinfo r' ''user_name'') (\<lambda>v_uname.
                        ebind (parse_anime_data L (rtext anime_data)) (\<lambda>anime_object_list.
                        ebind (parse_manga_data L (rtext manga_data)) (\<lambda>manga_object_list.
                        Inr \<lparr>uid = v_uid, name = v_uname,
                             anime_list = data anime_object_list,
                             anime_complete = completed anime_object_list,
                             anime_onhold = onhold anime_object_list,
                             anime_dropped = dropped anime_object_list,
                             anime_planned = planned anime_object_list,
                             anime_watching = watching anime_object_list,
                             anime_days = days anime_object_list,
                             manga_list = data manga_object_list,
                             manga_completed = completed manga_object_list,
                             manga_onhold = onhold manga_object_list,
                             manga_dropped = dropped manga_object_list,
                             manga_planned = planned manga_object_list,
                             manga_watching = watching manga_object_list,
                             manga_days = days manga_object_list\<rparr>))))))),
                        w\<lparr>net := n2\<rparr>)))))"

subsection \<open>Notions for the statements\<close>

text \<open>The world after the requests \<open>rqs\<close> have left the client, and nothing else changed.\<close>

definition logged :: "world \<Rightarrow> request list \<Rightarrow> world" where
  "logged w rqs = w\<lparr>net := (net w)\<lparr>sent := sent (net w) @ rqs\<rparr>\<rparr>"

text \<open>What the network answers to \<open>rq\<close> in the world \<open>w\<close>.\<close>

definition answer :: "world \<Rightarrow> request \<Rightarrow> py_error + response" where
  "answer w rq = server (net w) (sent (net w)) rq"

text \<open>The client that \<^verbatim>\<open>MAL(uname, pw)\<close> builds.\<close>

definition new_client :: "string \<Rightarrow> string \<Rightarrow> mal" where
  "new_client uname pw =
     \<lparr>apiurl = ''https://myanimelist.net/api/'',
      apiusers = ''https://myanimelist.net/malappinfo.php'',
      header = [(''User-Agent'', ''Pymoe (git.vertinext.com/ccubed/Pymoe)'')],
      username = uname, password = pw\<rparr>"

text \<open>A request with the client's basic authentication and its headers.\<close>

definition authed :: "mal \<Rightarrow> http_method \<Rightarrow> string \<Rightarrow> (string \<times> string) list \<Rightarrow> request" where
  "authed c m u ps =
     \<lparr>meth = m, url = u, params = ps, auth = Some (username c, password c),
      headers = header c\<rparr>"

subsection \<open>Sample data\<close>

definition sample_entry :: element where
  "sample_entry =
     Element ''entry'' None
       [Element ''id'' (Some ''20'') [],
        Element ''title'' (Some ''Naruto'') [],
        Element ''english'' (Some ''Naruto'') [],
        Element ''synonyms'' (Some ''NARUTO;Ninja'') [],
        Element ''episodes'' (Some ''220'') [],
        Element ''chapters'' (Some ''700'') [],
        Element ''volumes'' (Some ''72'') [],
        Element ''score'' (Some ''7.9'') [],
        Element ''type'' (Some ''TV'') [],
        Element ''status'' (Some ''Finished'') [],
        Element ''start_date'' (Some ''2002-10-03'') [],
        Element ''end_date'' (Some ''2007-02-08'') [],
        Element ''synopsis'' (Some ''A ninja.<br />The end.'') [],
        Element ''image'' (Some ''n.jpg'') []]"

definition sample_bare_entry :: element where
  "sample_bare_entry = Element ''entry'' None [Element ''synonyms'' None []]"

definition sample_doc :: element where
  "sample_doc = Element ''anime'' None [sample_entry]"

definition sample_xml :: string where
  "sample_xml = ''<anime><entry><id>20</id><title>Naruto</title><english>Naruto</english><synonyms>NARUTO;Ninja</synonyms><episodes>220</episodes><chapters>700</chapters><volumes>72</volumes><score>7.9</score><type>TV</type><status>Finished</status><start_date>2002-10-03</start_date><end_date>2007-02-08</end_date><synopsis>A ninja.&lt;br /&gt;The end.</synopsis><image>n.jpg</image></entry></anime>''"

definition sample_list_doc :: element where
  "sample_list_doc =
     Element ''myanimelist'' None
       [Element ''myinfo'' None
          [Element ''user_id'' (Some ''7'') [],
           Element ''user_name'' (Some ''ann'') [],
           Element ''user_watching'' (Some ''1'') [],
           Element ''user_completed'' (Some ''2'') [],
           Element ''user_onhold'' (Some ''0'') [],
           Element ''user_dropped'' (Some ''0'') [],
           Element ''user_plantowatch'' (Some ''3'') [],
           Element ''user_days_spent_watching'' (Some ''4.5'') []]]"

definition sample_list_xml :: string where
  "sample_list_xml = ''<myanimelist><myinfo><user_id>7</user_id><user_name>ann</user_name><user_watching>1</user_watching><user_completed>2</user_completed><user_onhold>0</user_onhold><user_dropped>0</user_dropped><user_plantowatch>3</user_plantowatch><user_days_spent_watching>4.5</user_days_spent_watching></myinfo></myanimelist>''"

text \<open>
  A library for the samples: its parser reads the two sample texts and nothing else,
  its \<^verbatim>\<open>unescape\<close> leaves a text without entities as it is.
\<close>

definition sample_lib :: lib where
  "sample_lib =
     \<lparr>parse_xml = (\<lambda>s. if s = sample_xml then Inr sample_doc
                       else if s = sample_list_xml then Inr sample_list_doc
                       else Inl ParseError),
      unescape = (\<lambda>s. s),
      anime_to_xml = (\<lambda>a. Inr ''<entry></entry>''),
      manga_to_xml = (\<lambda>m. Inr ''<entry></entry>'')\<rparr>"

definition sample_anime :: anime where
  "sample_anime =
     \<lparr>aid = Some ''20'', title = Some ''Naruto'', synonyms = None, episodes = Some ''220'',
      average = Some ''7.9'', anime_start = None, anime_end = None, synopsis = ''A ninja.'',
      image = None, status_anime = None, atype = Some ''TV''\<rparr>"

definition sample_manga :: manga where
  "sample_manga =
     \<lparr>mid = Some ''11'', mtitle = Some ''Naruto'', msynonyms = None, chapters = Some ''700'',
      volumes = Some ''72'', maverage = Some ''7.9'', manga_start = None, manga_end = None,
      msynopsis = ''A ninja.'', mimage = None, status_manga = None, mtype = Some ''Manga''\<rparr>"

text \<open>A network that answers every request with the status \<open>st\<close> and the body \<open>b\<close>.\<close>

definition answering :: "int \<Rightarrow> string \<Rightarrow> network" where
  "answering st b = \<lparr>server = (\<lambda>seen rq. Inr \<lparr>status_code = st, rtext = b\<rparr>), sent = []\<rparr>"

definition sample_world :: "int \<Rightarrow> string \<Rightarrow> world" where
  "sample_world st b = \<lparr>client = new_client ''ann'' ''secret'', net = answering st b\<rparr>"

section \<open>Properties\<close>

subsection \<open>What a call of requests sends\<close>

lemma get_auth_headers:
  "requests_get u [(''auth'', HTTPBasicAuth a b), (''headers'', KDict h)] n =
     (server n (sent n) \<lparr>meth = GET, url = u, params = [], auth = Some (a, b), headers = h\<rparr>,
      n\<lparr>sent := sent n @ [\<lparr>meth = GET, url = u, params = [], auth = Some (a, b), headers = h\<rparr>]\<rparr>)"
  by (simp add: requests_get_def requests_request_def session_request_keywords_def
      kw_dict_def kw_auth_def Let_def)

lemma request_params_auth_headers:
  "requests_request m u [(''params'', KDict ps), (''auth'', HTTPBasicAuth a b), (''headers'', KDict h)] n =
     (server n (sent n) \<lparr>meth = m, url = u, params = ps, auth = Some (a, b), headers = h\<rparr>,
      n\<lparr>sent := sent n @ [\<lparr>meth = m, url = u, params = ps, auth = Some (a, b), headers = h\<rparr>]\<rparr>)"
  by (simp add: requests_request_def session_request_keywords_def kw_dict_def kw_auth_def Let_def)

lemma get_params_headers:
  "requests_get u [(''params'', KDict ps), (''headers'', KDict h)] n =
     (server n (sent n) \<lparr>meth = GET, url = u, params = ps, auth = None, headers = h\<rparr>,
      n\<lparr>sent := sent n @ [\<lparr>meth = GET, url = u, params = ps, auth = None, headers = h\<rparr>]\<rparr>)"
  by (simp add: requests_get_def requests_request_def session_request_keywords_def
      kw_dict_def kw_auth_def Let_def)

text \<open>A call that passes the keyword \<^verbatim>\<open>Headers\<close> raises and sends nothing.\<close>

lemma request_bad_keyword:
  "(''Headers'', v) \<in> set kwargs \<Longrightarrow> requests_request m u kwargs n = (Inl TypeError, n)"
  by (auto simp: requests_request_def session_request_keywords_def list_all_iff)

subsection \<open>Construction\<close>

text \<open>
  C6: constructing the client sends one GET to the verification address, with the basic
  authentication of the given user name and password. When the network answers it, the
  construction raises \<^verbatim>\<open>UserLoginFailed\<close> if and only if the status of the answer is not
  200, and returns the new client on status 200.
\<close>

theorem init_verifies_credentials:
  assumes "server n (sent n)
             (authed (new_client uname pw) GET
                ''https://myanimelist.net/api/account/verify_credentials.xml'' []) = Inr resp"
  shows "mal_init uname pw n =
           (if status_code resp = 200 then Inr (new_client uname pw)
            else Inl (UserLoginFailed ''Username or Password incorrect.''),
            n\<lparr>sent := sent n @
                 [authed (new_client uname pw) GET
                    ''https://myanimelist.net/api/account/verify_credentials.xml'' []]\<rparr>)"
  using assms
  by (simp add: mal_init_def verify_credentials_def get_auth_headers new_client_def authed_def Let_def)

theorem init_verifies_credentials_witness:
  "mal_init ''ann'' ''secret'' (answering 200 '''') =
     (Inr (new_client ''ann'' ''secret''),
      (answering 200 '''')\<lparr>sent :=
         [authed (new_client ''ann'' ''secret'') GET
            ''https://myanimelist.net/api/account/verify_credentials.xml'' []]\<rparr>)
   \<and> mal_init ''ann'' ''wrong'' (answering 401 ''Invalid credentials'') =
     (Inl (UserLoginFailed ''Username or Password incorrect.''),
      (answering 401 ''Invalid credentials'')\<lparr>sent :=
         [authed (new_client ''ann'' ''wrong'') GET
            ''https://myanimelist.net/api/account/verify_credentials.xml'' []]\<rparr>)"
  using init_verifies_credentials [of "answering 200 ''''" "''ann''" "''secret''"
      "\<lparr>status_code = 200, rtext = ''''\<rparr>"]
    init_verifies_credentials [of "answering 401 ''Invalid credentials''" "''ann''" "''wrong''"
      "\<lparr>status_code = 401, rtext = ''Invalid credentials''\<rparr>"]
  by (simp add: answering_def)

subsection \<open>Searching\<close>

lemma search_non200:
  assumes "answer w (authed (client w) GET
             (apiurl (client w) @ (if which = 1 then ''anime'' else ''manga'') @ ''/search.xml'')
             [(''q'', q)]) = Inr resp"
    and "status_code resp \<noteq> 200"
  shows "search L which q w =
           (Inr [], logged w [authed (client w) GET
              (apiurl (client w) @ (if which = 1 then ''anime'' else ''manga'') @ ''/search.xml'')
              [(''q'', q)]])"
  using assms
  by (simp add: search_def requests_get_def request_params_auth_headers answer_def authed_def
      logged_def Let_def)

text \<open>
  C7: when the answer to the search request has a status other than 200, \<^verbatim>\<open>searchAnime\<close>
  and \<^verbatim>\<open>searchManga\<close> return the empty list and raise nothing, for every search term.
\<close>

theorem search_non200_empty:
  "(answer w (authed (client w) GET (apiurl (client w) @ ''anime/search.xml'') [(''q'', q)]) = Inr resp
      \<and> status_code resp \<noteq> 200
    \<longrightarrow> search_anime L q w =
          (Inr [], logged w [authed (client w) GET (apiurl (client w) @ ''anime/search.xml'') [(''q'', q)]]))
   \<and> (answer w (authed (client w) GET (apiurl (client w) @ ''manga/search.xml'') [(''q'', q)]) = Inr resp
      \<and> status_code resp \<noteq> 200
    \<longrightarrow> search_manga L q w =
          (Inr [], logged w [authed (client w) GET (apiurl (client w) @ ''manga/search.xml'') [(''q'', q)]]))"
  using search_non200 [of w 1 q resp L] search_non200 [of w 2 q resp L]
  by (simp add: search_anime_def search_manga_def)

theorem search_non200_empty_witness:
  "search_anime sample_lib ''naruto'' (sample_world 404 ''Not Found'') =
     (Inr [], logged (sample_world 404 ''Not Found'')
        [authed (new_client ''ann'' ''secret'') GET ''https://myanimelist.net/api/anime/search.xml''
           [(''q'', ''naruto'')]])
   \<and> search_manga sample_lib ''naruto'' (sample_world 404 ''Not Found'') =
     (Inr [], logged (sample_world 404 ''Not Found'')
        [authed (new_client ''ann'' ''secret'') GET ''https://myanimelist.net/api/manga/search.xml''
           [(''q'', ''naruto'')]])"
  using search_non200_empty [of "sample_world 404 ''Not Found''" "''naruto''"
      "\<lparr>status_code = 404, rtext = ''Not Found''\<rparr>" sample_lib]
  by (simp add: sample_world_def answering_def answer_def new_client_def)

subsection \<open>Adding\<close>

lemma anime_add_sends:
  assumes "anime_to_xml L a = Inr xmlstr"
    and "answer w (authed (client w) POST
           (apiurl (client w) @ ''animelist/add/'' @ py_str (aid a) @ ''.xml'')
           [(''data'', xmlstr)]) = Inr resp"
  shows "anime_add L (AnimeObj a) w =
           (if status_code resp = 201 then Inr True else Inl (ServerError (rtext resp)),
            logged w [authed (client w) POST
              (apiurl (client w) @ ''animelist/add/'' @ py_str (aid a) @ ''.xml'')
              [(''data'', xmlstr)]])"
  using assms
  by (simp add: anime_add_def requests_post_def request_params_auth_headers answer_def
      authed_def logged_def Let_def)

lemma manga_add_sends:
  assumes "manga_to_xml L m = Inr xmlstr"
    and "answer w (authed (client w) POST
           (apiurl (client w) @ ''mangalist/add/'' @ py_str (mid m) @ ''.xml'')
           [(''data'', xmlstr)]) = Inr resp"
  shows "manga_add L (MangaObj m) w =
           (if status_code resp = 201 then Inr True else Inl (ServerError (rtext resp)),
            logged w [authed (client w) POST
              (apiurl (client w) @ ''mangalist/add/'' @ py_str (mid m) @ ''.xml'')
              [(''data'', xmlstr)]])"
  using assms
  by (simp add: manga_add_def requests_post_def request_params_auth_headers answer_def
      authed_def logged_def Let_def)

text \<open>
  C5: for every \<^verbatim>\<open>Anime\<close> record given to \<^verbatim>\<open>addAnime\<close> and every \<^verbatim>\<open>Manga\<close> record given
  to \<^verbatim>\<open>addManga\<close>, once the record is serialised and the network answers the POST, the call
  returns \<^verbatim>\<open>True\<close> exactly when the status of the answer is 201; for any other status it
  raises \<^verbatim>\<open>ServerError\<close> with the body of the answer as its message. One request is sent.
\<close>

theorem add_true_iff_201:
  "(anime_to_xml L a = Inr xmlstr
      \<and> answer w (authed (client w) POST
            (apiurl (client w) @ ''animelist/add/'' @ py_str (aid a) @ ''.xml'')
            [(''data'', xmlstr)]) = Inr resp
    \<longrightarrow> anime_add L (AnimeObj a) w =
          (if status_code resp = 201 then Inr True else Inl (ServerError (rtext resp)),
           logged w [authed (client w) POST
             (apiurl (client w) @ ''animelist/add/'' @ py_str (aid a) @ ''.xml'')
             [(''data'', xmlstr)]]))
   \<and> (manga_to_xml L m = Inr xmlstr
      \<and> answer w (authed (client w) POST
            (apiurl (client w) @ ''mangalist/add/'' @ py_str (mid m) @ ''.xml'')
            [(''data'', xmlstr)]) = Inr resp
    \<longrightarrow> manga_add L (MangaObj m) w =
          (if status_code resp = 201 then Inr True else Inl (ServerError (rtext resp)),
           logged w [authed (client w) POST
             (apiurl (client w) @ ''mangalist/add/'' @ py_str (mid m) @ ''.xml'')
             [(''data'', xmlstr)]]))"
  using anime_add_sends [of L a xmlstr w resp] manga_add_sends [of L m xmlstr w resp]
  by simp

theorem add_true_iff_201_witness:
  "fst (anime_add sample_lib (AnimeObj sample_anime) (sample_world 201 ''Created'')) = Inr True
   \<and> fst (manga_add sample_lib (MangaObj sample_manga) (sample_world 201 ''Created'')) = Inr True
   \<and> fst (anime_add sample_lib (AnimeObj sample_anime) (sample_world 400 ''Invalid ID''))
       = Inl (ServerError ''Invalid ID'')
   \<and> fst (manga_add sample_lib (MangaObj sample_manga) (sample_world 200 ''Updated''))
       = Inl (ServerError ''Updated'')"
  using add_true_iff_201 [of sample_lib sample_anime "''<entry></entry>''"
      "sample_world 201 ''Created''" "\<lparr>status_code = 201, rtext = ''Created''\<rparr>" sample_manga]
    add_true_iff_201 [of sample_lib sample_anime "''<entry></entry>''"
      "sample_world 400 ''Invalid ID''" "\<lparr>status_code = 400, rtext = ''Invalid ID''\<rparr>" sample_manga]
    add_true_iff_201 [of sample_lib sample_anime "''<entry></entry>''"
      "sample_world 200 ''Updated''" "\<lparr>status_code = 200, rtext = ''Updated''\<rparr>" sample_manga]
  by (simp add: sample_lib_def sample_world_def answering_def answer_def)

subsection \<open>Values of the wrong type\<close>

text \<open>
  C3, as the code has it: a value that is not an \<^verbatim>\<open>Anime\<close> given to \<^verbatim>\<open>addAnime\<close>,
  \<^verbatim>\<open>updateAnime\<close> or \<^verbatim>\<open>deleteAnime\<close>, and a value that is not a \<^verbatim>\<open>Manga\<close> given to the
  three manga operations, raises \<^verbatim>\<open>SyntaxError\<close> with a message that names the expected
  class and the type received, and the world is left as it was: no request is sent.
\<close>

theorem wrong_type_raises_syntax_error:
  "(\<not> is_Anime d \<longrightarrow>
      anime_add L d w =
        (Inl (SyntaxError (''Invalid type: data should be a Pymoe.Mal.Objects.Anime object. Got a ''
                            @ type_repr d)), w)
    \<and> anime_update L d w =
        (Inl (SyntaxError (''Invalid type: data should be a Pymoe.Mal.Objects.Anime object. Got a ''
                            @ type_repr d)), w)
    \<and> anime_delete d w =
        (Inl (SyntaxError (''Invalid type: data should be a Pymoe.Mal.Objects.Anime object. Got a ''
                            @ type_repr d)), w))
   \<and> (\<not> is_Manga d \<longrightarrow>
      manga_add L d w =
        (Inl (SyntaxError (''Invalid type: data should be a Pymoe.Mal.Objects.Manga object. Got a ''
                            @ type_repr d)), w)
    \<and> manga_update L d w =
        (Inl (SyntaxError (''Invalid type: data should be a Pymoe.Mal.Objects.Manga object. Got a ''
                            @ type_repr d)), w)
    \<and> manga_delete d w =
        (Inl (SyntaxError (''Invalid type: data should be a Pymoe.Mal.Objects.Manga object. Got a ''
                            @ type_repr d)), w))"
  by (cases d)
    (simp_all add: anime_add_def anime_update_def anime_delete_def manga_add_def
      manga_update_def manga_delete_def)

theorem wrong_type_raises_syntax_error_witness:
  "anime_add sample_lib (MangaObj sample_manga) (sample_world 201 '''') =
     (Inl (SyntaxError ''Invalid type: data should be a Pymoe.Mal.Objects.Anime object. Got a <class 'Pymoe.Mal.Objects.Manga'>''),
      sample_world 201 '''')
   \<and> manga_delete (OtherObj ''<class 'int'>'') (sample_world 200 '''') =
     (Inl (SyntaxError ''Invalid type: data should be a Pymoe.Mal.Objects.Manga object. Got a <class 'int'>''),
      sample_world 200 '''')"
  using wrong_type_raises_syntax_error [of "MangaObj sample_manga" sample_lib "sample_world 201 ''''"]
    wrong_type_raises_syntax_error [of "OtherObj ''<class 'int'>''" sample_lib "sample_world 200 ''''"]
  by (simp add: type_repr_def)

text \<open>
  The exception is not a \<^verbatim>\<open>TypeError\<close>: a \<^verbatim>\<open>Manga\<close> record given to \<^verbatim>\<open>addAnime\<close> raises
  \<^verbatim>\<open>SyntaxError\<close>.
\<close>

theorem wrong_type_not_type_error:
  "fst (anime_add sample_lib (MangaObj sample_manga) (sample_world 201 '''')) =
     Inl (SyntaxError ''Invalid type: data should be a Pymoe.Mal.Objects.Anime object. Got a <class 'Pymoe.Mal.Objects.Manga'>'')
   \<and> fst (anime_add sample_lib (MangaObj sample_manga) (sample_world 201 '''')) \<noteq> Inl TypeError"
  by (simp add: anime_add_def type_repr_def)

subsection \<open>The client's attributes\<close>

text \<open>
  C9: every operation after construction (the searches, add, update and delete of both
  kinds, and \<^verbatim>\<open>user\<close>) leaves the client's attributes as they were: user name, password,
  the two base addresses and the header. Whatever the network answers, and whether the
  operation returns or raises.
\<close>

theorem client_unchanged:
  "client (snd (search L which q w)) = client w
   \<and> client (snd (search_anime L q w)) = client w
   \<and> client (snd (search_manga L q w)) = client w
   \<and> client (snd (anime_add L d w)) = client w
   \<and> client (snd (manga_add L d w)) = client w
   \<and> client (snd (anime_update L d w)) = client w
   \<and> client (snd (manga_update L d w)) = client w
   \<and> client (snd (anime_delete d w)) = client w
   \<and> client (snd (manga_delete d w)) = client w
   \<and> client (snd (user L nm w)) = client w"
proof -
  have s: "client (snd (search L k q w)) = client w" for k
    by (simp add: search_def Let_def split: prod.splits sum.splits)
  have aa: "client (snd (anime_add L d w)) = client w"
    by (simp add: anime_add_def Let_def split: prod.splits sum.splits pyobj.splits)
  have ma: "client (snd (manga_add L d w)) = client w"
    by (simp add: manga_add_def Let_def split: prod.splits sum.splits pyobj.splits)
  have au: "client (snd (anime_update L d w)) = client w"
    by (simp add: anime_update_def Let_def split: prod.splits sum.splits pyobj.splits)
  have mu: "client (snd (manga_update L d w)) = client w"
    by (simp add: manga_update_def Let_def split: prod.splits sum.splits pyobj.splits)
  have ad: "client (snd (anime_delete d w)) = client w"
    by (simp add: anime_delete_def Let_def split: prod.splits sum.splits pyobj.splits)
  have md: "client (snd (manga_delete d w)) = client w"
    by (simp add: manga_delete_def Let_def split: prod.splits sum.splits pyobj.splits)
  have u: "client (snd (user L nm w)) = client w"
    by (simp add: user_def Let_def split: prod.splits sum.splits)
  show ?thesis
    using s aa ma au mu ad md u by (simp add: search_anime_def search_manga_def)
qed

subsection \<open>Splitting and the entry parsers\<close>

lemma str_split_not_Nil: "str_split sep s \<noteq> []"
  by (induction s) (auto split: list.splits)

lemma py_or_split: "py_or (map Some (str_split sep s)) [] = map Some (str_split sep s)"
  by (simp add: py_or_def str_split_not_Nil)

lemma anime_of_item_no_text:
  assumes "find_el item ''synonyms'' = Some s" and "etext s = None"
  shows "anime_of_item L item = Inl AttributeError"
  using assms by (simp add: anime_of_item_def obj_text_def on_str_def ebind_def)

lemma manga_of_item_no_text:
  assumes "find_el item ''synonyms'' = Some s" and "etext s = None"
  shows "manga_of_item L item = Inl AttributeError"
  using assms by (simp add: manga_of_item_def obj_text_def on_str_def ebind_def)

text \<open>The only exception an entry parser raises is \<^verbatim>\<open>AttributeError\<close>.\<close>

lemma ebind_attr:
  assumes "ebind m f = Inl e"
    and "\<And>e'. m = Inl e' \<Longrightarrow> e' = AttributeError"
    and "\<And>x e'. f x = Inl e' \<Longrightarrow> e' = AttributeError"
  shows "e = AttributeError"
  using assms by (cases m) (auto simp: ebind_def)

lemma obj_text_attr: "obj_text x = Inl e \<Longrightarrow> e = AttributeError"
  by (cases x) (simp_all add: obj_text_def)

lemma on_str_attr: "on_str x f = Inl e \<Longrightarrow> e = AttributeError"
  by (cases x) (simp_all add: on_str_def)

lemma anime_of_item_attr: "anime_of_item L item = Inl e \<Longrightarrow> e = AttributeError"
  unfolding anime_of_item_def Let_def list_append_def prod.case
  by (elim ebind_attr obj_text_attr on_str_attr) simp

lemma manga_of_item_attr: "manga_of_item L item = Inl e \<Longrightarrow> e = AttributeError"
  unfolding manga_of_item_def Let_def list_append_def prod.case
  by (elim ebind_attr obj_text_attr on_str_attr) simp

text \<open>A loop over a list that holds an item on which the body raises does not return.\<close>

lemma for_append_raises:
  assumes "item \<in> set items" and "f item = Inl AttributeError"
    and "\<And>x e. f x = Inl e \<Longrightarrow> e = AttributeError"
  shows "for_append f items out = Inl AttributeError"
  using assms(1)
proof (induction items arbitrary: out)
  case Nil
  then show ?case by simp
next
  case (Cons x xs)
  show ?case
  proof (cases "f x")
    case (Inl e)
    with assms(3) have "e = AttributeError" by blast
    with Inl show ?thesis by simp
  next
    case (Inr y)
    with assms(2) have "x \<noteq> item" by auto
    with Cons.prems have "item \<in> set xs" by simp
    with Cons.IH Inr show ?thesis by simp
  qed
qed

text \<open>The value handed on as \<^verbatim>\<open>synonyms\<close> is the value of the call of \<^verbatim>\<open>append\<close>.\<close>

lemma anime_of_item_synonyms: "anime_of_item L item = Inr a \<Longrightarrow> synonyms a = None"
  by (auto simp: anime_of_item_def ebind_def list_append_def Let_def split: sum.splits)

lemma manga_of_item_synonyms: "manga_of_item L item = Inr m \<Longrightarrow> msynonyms m = None"
  by (auto simp: manga_of_item_def ebind_def list_append_def Let_def split: sum.splits)

lemma anime_of_item_sample:
  "anime_of_item sample_lib sample_entry =
     Inr \<lparr>aid = Some ''20'', title = Some ''Naruto'', synonyms = None, episodes = Some ''220'',
          average = Some ''7.9'', anime_start = Some ''2002-10-03'', anime_end = Some ''2007-02-08'',
          synopsis = ''A ninja.The end.'', image = Some ''n.jpg'', status_anime = Some ''Finished'',
          atype = Some ''TV''\<rparr>"
  by (simp add: anime_of_item_def sample_entry_def sample_lib_def find_el_def obj_text_def
      on_str_def ebind_def list_append_def py_or_def str_replace_def)

subsection \<open>The root of a parsed document\<close>

text \<open>
  \<^verbatim>\<open>ET.fromstring(s).getroot()\<close> raises for every text: \<^verbatim>\<open>ParseError\<close> (or what else the
  parser raises) when the text is ill-formed, \<^verbatim>\<open>AttributeError\<close> when it is parsed.
\<close>

lemma fromstring_getroot:
  "ebind (fromstring L s) (\<lambda>doc. ebind (getroot doc) (g doc)) =
     (case parse_xml L s of Inl e \<Rightarrow> Inl e | Inr x \<Rightarrow> Inl AttributeError)"
  by (simp add: fromstring_def getroot_def ebind_def split: sum.splits)

lemma parse_anime_data_raises:
  "parse_anime_data L xml = (case parse_xml L xml of Inl e \<Rightarrow> Inl e | Inr x \<Rightarrow> Inl AttributeError)"
  unfolding parse_anime_data_def by (rule fromstring_getroot)

lemma parse_manga_data_raises:
  "parse_manga_data L xml = (case parse_xml L xml of Inl e \<Rightarrow> Inl e | Inr x \<Rightarrow> Inl AttributeError)"
  unfolding parse_manga_data_def by (rule fromstring_getroot)

lemma search_200_raises:
  assumes "answer w (authed (client w) GET
             (apiurl (client w) @ (if which = 1 then ''anime'' else ''manga'') @ ''/search.xml'')
             [(''q'', q)]) = Inr resp"
    and "status_code resp = 200"
  shows "search L which q w =
           (case parse_xml L (rtext resp) of Inl e \<Rightarrow> Inl e | Inr x \<Rightarrow> Inl AttributeError,
            logged w [authed (client w) GET
              (apiurl (client w) @ (if which = 1 then ''anime'' else ''manga'') @ ''/search.xml'')
              [(''q'', q)]])"
  using assms
  by (simp add: search_def requests_get_def request_params_auth_headers answer_def authed_def
      logged_def Let_def fromstring_def getroot_def ebind_def split: sum.splits)

lemma user_raises:
  assumes "answer w \<lparr>meth = GET, url = apiusers (client w),
             params = [(''u'', nm), (''status'', ''all''), (''type'', ''anime'')],
             auth = None, headers = header (client w)\<rparr> = Inr anime_data"
    and "answer (logged w [\<lparr>meth = GET, url = apiusers (client w),
             params = [(''u'', nm), (''status'', ''all''), (''type'', ''anime'')],
             auth = None, headers = header (client w)\<rparr>])
           \<lparr>meth = GET, url = apiusers (client w),
             params = [(''u'', nm), (''status'', ''all''), (''type'', ''manga'')],
             auth = None, headers = header (client w)\<rparr> = Inr manga_data"
  shows "user L nm w =
           (case parse_xml L (rtext anime_data) of Inl e \<Rightarrow> Inl e | Inr x \<Rightarrow> Inl AttributeError,
            logged w [\<lparr>meth = GET, url = apiusers (client w),
                 params = [(''u'', nm), (''status'', ''all''), (''type'', ''anime'')],
                 auth = None, headers = header (client w)\<rparr>,
               \<lparr>meth = GET, url = apiusers (client w),
                 params = [(''u'', nm), (''status'', ''all''), (''type'', ''manga'')],
                 auth = None, headers = header (client w)\<rparr>])"
  using assms
  by (simp add: user_def get_params_headers answer_def logged_def Let_def
      fromstring_def getroot_def ebind_def split: sum.splits)

lemma sample_parse:
  "parse_xml sample_lib sample_xml = Inr sample_doc"
  "parse_xml sample_lib sample_list_xml = Inr sample_list_doc"
  by (simp_all add: sample_lib_def sample_xml_def sample_list_xml_def)

text \<open>
  C1, at a sample: a search that is answered with status 200 and a document of one entry
  does not return the list of one record; it raises \<^verbatim>\<open>AttributeError\<close>, for the
  \<^verbatim>\<open>Element\<close> that \<^verbatim>\<open>ET.fromstring\<close> returns has no \<^verbatim>\<open>getroot\<close>.
\<close>

theorem search_sample_raises:
  "search_anime sample_lib ''naruto'' (sample_world 200 sample_xml) =
     (Inl AttributeError, logged (sample_world 200 sample_xml)
        [authed (new_client ''ann'' ''secret'') GET ''https://myanimelist.net/api/anime/search.xml''
           [(''q'', ''naruto'')]])
   \<and> search_manga sample_lib ''naruto'' (sample_world 200 sample_xml) =
     (Inl AttributeError, logged (sample_world 200 sample_xml)
        [authed (new_client ''ann'' ''secret'') GET ''https://myanimelist.net/api/manga/search.xml''
           [(''q'', ''naruto'')]])"
  using search_200_raises [of "sample_world 200 sample_xml" 1 "''naruto''"
      "\<lparr>status_code = 200, rtext = sample_xml\<rparr>" sample_lib]
    search_200_raises [of "sample_world 200 sample_xml" 2 "''naruto''"
      "\<lparr>status_code = 200, rtext = sample_xml\<rparr>" sample_lib]
  by (simp add: search_anime_def search_manga_def sample_world_def answering_def answer_def
      new_client_def sample_parse)

text \<open>
  C2, at a sample: for the entry whose \<^verbatim>\<open>synonyms\<close> text is \<^verbatim>\<open>NARUTO;Ninja\<close> the split
  gives the two names, and the record built from the entry has \<^verbatim>\<open>None\<close> as its synonyms.
\<close>

theorem synonyms_sample_is_None:
  "map_sum id synonyms (anime_of_item sample_lib sample_entry) = Inr None
   \<and> map_sum id msynonyms (manga_of_item sample_lib sample_entry) = Inr None
   \<and> str_split CHR '';'' ''NARUTO;Ninja'' = [''NARUTO'', ''Ninja'']"
  by (simp add: anime_of_item_def manga_of_item_def sample_entry_def sample_lib_def find_el_def
      obj_text_def on_str_def ebind_def list_append_def py_or_def str_replace_def)

text \<open>
  C8, at a sample: \<^verbatim>\<open>user\<close> sends its two GETs, both answered with status 200 and a
  well-formed list, and then raises \<^verbatim>\<open>AttributeError\<close> instead of returning a \<^verbatim>\<open>User\<close>.
\<close>

theorem user_sample_raises:
  "user sample_lib ''ann'' (sample_world 200 sample_list_xml) =
     (Inl AttributeError, logged (sample_world 200 sample_list_xml)
        [\<lparr>meth = GET, url = ''https://myanimelist.net/malappinfo.php'',
          params = [(''u'', ''ann''), (''status'', ''all''), (''type'', ''anime'')],
          auth = None, headers = [(''User-Agent'', ''Pymoe (git.vertinext.com/ccubed/Pymoe)'')]\<rparr>,
         \<lparr>meth = GET, url = ''https://myanimelist.net/malappinfo.php'',
          params = [(''u'', ''ann''), (''status'', ''all''), (''type'', ''manga'')],
          auth = None, headers = [(''User-Agent'', ''Pymoe (git.vertinext.com/ccubed/Pymoe)'')]\<rparr>])"
  using user_raises [of "sample_world 200 sample_list_xml" "''ann''"
      "\<lparr>status_code = 200, rtext = sample_list_xml\<rparr>"
      "\<lparr>status_code = 200, rtext = sample_list_xml\<rparr>" sample_lib]
  by (simp add: sample_world_def answering_def answer_def new_client_def sample_parse logged_def)

text \<open>
  C10: when the \<^verbatim>\<open>synonyms\<close> element of an entry is present and has no text, building the
  record from the entry raises \<^verbatim>\<open>AttributeError\<close>, and so does the loop of a parser over
  any list of entries that holds it: no record with an empty synonym list is produced.
  The split of a text on \<^verbatim>\<open>;\<close> is never the empty list, so \<^verbatim>\<open>or []\<close> never takes its
  right-hand side. (The user-list parsers as a whole raise on every text.)
\<close>

theorem missing_synonyms_text_raises:
  assumes "item \<in> set items" and "find_el item ''synonyms'' = Some s" and "etext s = None"
  shows "anime_of_item L item = Inl AttributeError
       \<and> manga_of_item L item = Inl AttributeError
       \<and> for_append (anime_of_item L) items out = Inl AttributeError
       \<and> for_append (manga_of_item L) items out' = Inl AttributeError
       \<and> str_split CHR '';'' txt \<noteq> []
       \<and> py_or (map Some (str_split CHR '';'' txt)) [] = map Some (str_split CHR '';'' txt)
       \<and> isl (parse_anime_data L xml) \<and> isl (parse_manga_data L xml)"
proof -
  have a: "anime_of_item L item = Inl AttributeError"
    using assms(2,3) by (rule anime_of_item_no_text)
  have m: "manga_of_item L item = Inl AttributeError"
    using assms(2,3) by (rule manga_of_item_no_text)
  have la: "for_append (anime_of_item L) items out = Inl AttributeError"
    using assms(1) a anime_of_item_attr by (rule for_append_raises)
  have lm: "for_append (manga_of_item L) items out' = Inl AttributeError"
    using assms(1) m manga_of_item_attr by (rule for_append_raises)
  have p: "isl (parse_anime_data L xml)" "isl (parse_manga_data L xml)"
    by (simp_all add: parse_anime_data_raises parse_manga_data_raises split: sum.splits)
  show ?thesis
    using a m la lm p by (simp add: str_split_not_Nil py_or_split)
qed

theorem missing_synonyms_text_raises_witness:
  "anime_of_item sample_lib sample_bare_entry = Inl AttributeError
   \<and> manga_of_item sample_lib sample_bare_entry = Inl AttributeError
   \<and> for_append (anime_of_item sample_lib) [sample_entry, sample_bare_entry] [] = Inl AttributeError
   \<and> for_append (manga_of_item sample_lib) [sample_entry, sample_bare_entry] [] = Inl AttributeError
   \<and> str_split CHR '';'' '''' \<noteq> []"
  using missing_synonyms_text_raises [of sample_bare_entry "[sample_entry, sample_bare_entry]"
      "Element ''synonyms'' None []" sample_lib "[]" "[]" "''''" "''''"]
  by (simp add: sample_bare_entry_def find_el_def)

subsection \<open>Updating and deleting\<close>

text \<open>
  The calls of \<^verbatim>\<open>requests.post\<close> in the update and delete methods pass the keyword
  \<^verbatim>\<open>Headers\<close>: for a record of the right class they raise \<^verbatim>\<open>TypeError\<close> and send nothing.
\<close>

lemma update_delete_raise:
  "anime_to_xml L a = Inr x \<Longrightarrow> anime_update L (AnimeObj a) w = (Inl TypeError, w)"
  "manga_to_xml L m = Inr x \<Longrightarrow> manga_update L (MangaObj m) w = (Inl TypeError, w)"
  "anime_delete (AnimeObj a) w = (Inl TypeError, w)"
  "manga_delete (MangaObj m) w = (Inl TypeError, w)"
  by (simp_all add: anime_update_def manga_update_def anime_delete_def manga_delete_def
      requests_post_def request_bad_keyword Let_def)

text \<open>
  C4, at a sample: on a network that would answer every request with status 200, update
  and delete of a record of the right class do not return \<^verbatim>\<open>True\<close>: they raise
  \<^verbatim>\<open>TypeError\<close>, and the log of requests is as it was.
\<close>

theorem update_delete_sample_raise:
  "anime_update sample_lib (AnimeObj sample_anime) (sample_world 200 ''Updated'') =
     (Inl TypeError, sample_world 200 ''Updated'')
   \<and> manga_update sample_lib (MangaObj sample_manga) (sample_world 200 ''Updated'') =
     (Inl TypeError, sample_world 200 ''Updated'')
   \<and> anime_delete (AnimeObj sample_anime) (sample_world 200 ''Deleted'') =
     (Inl TypeError, sample_world 200 ''Deleted'')
   \<and> manga_delete (MangaObj sample_manga) (sample_world 200 ''Deleted'') =
     (Inl TypeError, sample_world 200 ''Deleted'')"
  by (simp add: update_delete_raise sample_lib_def)

end
